theory Spec2Isabelle
  imports Main "HOL-Library.Word"
begin

section \<open>Data model\<close>

text \<open>
  The wrappers of this repository sit on two C libraries (OpenSSL and libsrtp). Their
  objects are opaque to the wrappers, which only hold pointers to them: a pointer is
  modelled as an optional address, \<open>None\<close> being \<open>nullptr\<close>. Bytes are
  \<open>unsigned char\<close>.
\<close>

type_synonym byte = "8 word"
type_synonym ptr = "nat option"

text \<open>What the managed runtime raises where the wrappers index or dereference blindly.\<close>

datatype fault = IndexOutOfRange | NullPointerDereference

text \<open>
  \<open>memcpy(&dst[doff], &src[soff], n)\<close> on arrays held as lists. All uses in the
  source stay inside both arrays.
\<close>

definition memcpy :: "'a list \<Rightarrow> nat \<Rightarrow> 'a list \<Rightarrow> nat \<Rightarrow> nat \<Rightarrow> 'a list" where
  "memcpy dst doff src soff n = take doff dst @ take n (drop soff src) @ drop (doff + n) dst"

section \<open>Cookie callbacks (Dtls.cpp, DtlsHandshake.cpp)\<close>

text \<open>
  \<open>#define DTLS_COOKIE "sipsorcery"\<close>: a string literal, so \<open>sizeof\<close> counts the
  terminating NUL as well.
\<close>

definition DTLS_COOKIE :: "byte list" where
  "DTLS_COOKIE = map of_char ''sipsorcery'' @ [0]"

text \<open>
  \<open>verify_cookie\<close> ignores all three arguments (source comment: accept any cookie).
\<close>

definition verify_cookie :: "ptr \<Rightarrow> byte list \<Rightarrow> nat \<Rightarrow> int" where
  "verify_cookie ssl_p cookie cookie_len = 1"

text \<open>
  \<open>generate_cookie\<close> writes the constant into the caller's buffer and sets
  \<open>*cookie_len\<close>; the result is (return value, buffer, \<open>*cookie_len\<close>).
\<close>

definition generate_cookie :: "ptr \<Rightarrow> byte list \<Rightarrow> int \<times> byte list \<times> nat" where
  "generate_cookie ssl_p cookie =
     (let cookieLength = length DTLS_COOKIE
      in (1, memcpy cookie 0 DTLS_COOKIE 0 cookieLength, cookieLength))"

text \<open>The cookie a peer is sent: the first \<open>*cookie_len\<close> bytes of the buffer.\<close>

definition generated_cookie :: "ptr \<Rightarrow> byte list \<Rightarrow> byte list" where
  "generated_cookie ssl_p cookie =
     (case generate_cookie ssl_p cookie of (r, buf, n) \<Rightarrow> take n buf)"

section \<open>Handshake engine (Dtls.h, Dtls.cpp, DtlsHandshake.h, DtlsHandshake.cpp)\<close>

text \<open>\<open>#define HANDSHAKE_ERROR_STATUS -1\<close> and \<open>#define SRTP_ALGORITHM\<close>.\<close>

definition HANDSHAKE_ERROR_STATUS :: int where
  "HANDSHAKE_ERROR_STATUS = - 1"

definition SRTP_ALGORITHM :: string where
  "SRTP_ALGORITHM = ''SRTP_AES128_CM_SHA1_80''"

text \<open>The \<open>krx\<close> struct and the managed class around it. The field \<open>_k\<close> is
  \<open>k_ptr\<close> here: the struct it points to is never shared, so the pointer is modelled
  as an optional struct. Classes \<open>Dtls\<close> and \<open>DtlsHandshake\<close> have the same
  fields, the same constructor, \<open>Shutdown\<close> and \<open>GetSSL\<close>.\<close>

record krx =
  ctx :: ptr
  ssl :: ptr
  bio :: ptr

record Dtls =
  k_ptr :: "krx option"
  certFile :: string
  keyFile :: string
  handshakeComplete :: bool

type_synonym DtlsHandshake = Dtls


text \<open>
  The library calls the wrappers make are effects: each function of the model returns
  the list of calls it made, in order, with the arguments that matter. Function pointers
  passed as callbacks are named by a tag.
\<close>

datatype ssl_method = DTLS_method | DTLS_server_method | DTLS_client_method

datatype verify_mode = SSL_VERIFY_NONE | SSL_VERIFY_PEER

datatype callback =
    cb_krx_ssl_verify_peer
  | cb_generate_cookie
  | cb_verify_cookie
  | cb_krx_ssl_info_callback

datatype call =
    ERR_print_errors_fp
  | printf string
  | SSL_CTX_new ssl_method
  | SSL_CTX_set_cipher_list string
  | SSL_CTX_set_ecdh_auto
  | SSL_CTX_set_verify verify_mode "callback option"
  | SSL_CTX_set_tlsext_use_srtp string
  | SSL_CTX_use_certificate_file string
  | SSL_CTX_use_PrivateKey_file string
  | SSL_CTX_check_private_key
  | SSL_CTX_set_cookie_generate_cb callback
  | SSL_CTX_set_cookie_verify_cb callback
  | SSL_new
  | BIO_new_dgram nat
  | SSL_set_bio
  | SSL_set_info_callback callback
  | SSL_set_accept_state
  | SSL_set_connect_state
  | DTLSv1_listen
  | BIO_ctrl_DGRAM_SET_CONNECTED
  | SSL_accept
  | SSL_connect
  | SSL_CTX_free nat
  | SSL_shutdown nat
  | SSL_free nat
  | sprintf_name string
  | DTLS_set_link_mtu nat
  | SSL_set_mtu nat
  | BIO_new_mem
  | BIO_set_mem_eof_return
  | BIO_write
  | SSL_is_init_finished
  | SSL_do_handshake

text \<open>
  What the library answers is not decided by this repository: the answers are taken as
  a parameter, one field per call whose result the wrappers read.
\<close>

record openssl =
  r_SSL_CTX_new :: ptr
  r_SSL_CTX_set_cipher_list :: int
  r_SSL_CTX_set_tlsext_use_srtp :: int
  r_SSL_CTX_use_certificate_file :: "string \<Rightarrow> int"
  r_SSL_CTX_use_PrivateKey_file :: "string \<Rightarrow> int"
  r_SSL_CTX_check_private_key :: int
  r_SSL_new :: ptr
  r_BIO_new_dgram :: ptr
  r_BIO_ctrl :: int
  r_SSL_accept :: int
  r_SSL_connect :: int

text \<open>Constructor: a fresh \<open>krx\<close> with three null pointers (the once-only
  initialisation of the library is left out).\<close>

definition Dtls_new :: "string \<Rightarrow> string \<Rightarrow> Dtls" where
  "Dtls_new cert keyf =
     \<lparr>k_ptr = Some \<lparr>ctx = None, ssl = None, bio = None\<rparr>,
      certFile = cert, keyFile = keyf, handshakeComplete = False\<rparr>"

definition GetSSL :: "Dtls \<Rightarrow> ptr" where
  "GetSSL this = (case k_ptr this of Some kx \<Rightarrow> ssl kx | None \<Rightarrow> None)"

text \<open>\<open>Shutdown\<close> returns the object after the call and the library calls made.\<close>

definition Shutdown :: "Dtls \<Rightarrow> Dtls \<times> call list" where
  "Shutdown this =
     (case k_ptr this of
        None \<Rightarrow> (this, [ERR_print_errors_fp])
      | Some kx \<Rightarrow>
          (this\<lparr>k_ptr := None\<rparr>,
           [ERR_print_errors_fp]
           @ (case ctx kx of None \<Rightarrow> [] | Some c \<Rightarrow> [SSL_CTX_free c])
           @ (case ssl kx of None \<Rightarrow> [] | Some s \<Rightarrow> [SSL_shutdown s, SSL_free s])))"

text \<open>The destructor only calls \<open>Shutdown\<close>.\<close>

definition Dtls_destructor :: "Dtls \<Rightarrow> Dtls \<times> call list" where
  "Dtls_destructor this = Shutdown this"

text \<open>
  \<open>DtlsHandshake::DoHandshakeAsServer\<close>. The result is a fault where \<open>_k\<close> is
  null (the method dereferences it unchecked), else the returned status, the object and
  the calls made. The cookie callbacks and \<open>DTLSv1_listen\<close> are commented out in the
  source, so they are absent here.
\<close>

definition DoHandshakeAsServer ::
    "openssl \<Rightarrow> DtlsHandshake \<Rightarrow> nat \<Rightarrow> fault + (int \<times> DtlsHandshake \<times> call list)" where
  "DoHandshakeAsServer lib this rtpSocket =
   (case k_ptr this of
      None \<Rightarrow> Inl NullPointerDereference
    | Some k0 \<Rightarrow> Inr
       (let k1 = k0\<lparr>ctx := r_SSL_CTX_new lib\<rparr>;
            t1 = [ERR_print_errors_fp, SSL_CTX_new DTLS_server_method]
        in if ctx k1 = None then
             (HANDSHAKE_ERROR_STATUS, this\<lparr>k_ptr := Some k1\<rparr>,
              t1 @ [printf ''Error: cannot create SSL_CTX.'', ERR_print_errors_fp])
        else let t2 = t1 @ [SSL_CTX_set_cipher_list ''ALL:!ADH:!LOW:!EXP:!MD5:@STRENGTH'']
        in if r_SSL_CTX_set_cipher_list lib \<noteq> 1 then
             (HANDSHAKE_ERROR_STATUS, this\<lparr>k_ptr := Some k1\<rparr>,
              t2 @ [printf ''Error: cannot set the cipher list.'', ERR_print_errors_fp])
        else let t3 = t2 @ [SSL_CTX_set_tlsext_use_srtp SRTP_ALGORITHM]
        in if r_SSL_CTX_set_tlsext_use_srtp lib \<noteq> 0 then
             (HANDSHAKE_ERROR_STATUS, this\<lparr>k_ptr := Some k1\<rparr>,
              t3 @ [printf ''Error: cannot setup srtp.'', ERR_print_errors_fp])
        else let t4 = t3 @ [SSL_CTX_use_certificate_file (certFile this)]
        in if r_SSL_CTX_use_certificate_file lib (certFile this) \<noteq> 1 then
             (HANDSHAKE_ERROR_STATUS, this\<lparr>k_ptr := Some k1\<rparr>,
              t4 @ [printf ''Error: cannot load certificate file.'', ERR_print_errors_fp])
        else let t5 = t4 @ [SSL_CTX_use_PrivateKey_file (keyFile this)]
        in if r_SSL_CTX_use_PrivateKey_file lib (keyFile this) \<noteq> 1 then
             (HANDSHAKE_ERROR_STATUS, this\<lparr>k_ptr := Some k1\<rparr>,
              t5 @ [printf ''Error: cannot load private key file.'', ERR_print_errors_fp])
        else let t6 = t5 @ [SSL_CTX_check_private_key]
        in if r_SSL_CTX_check_private_key lib \<noteq> 1 then
             (HANDSHAKE_ERROR_STATUS, this\<lparr>k_ptr := Some k1\<rparr>,
              t6 @ [printf ''Error: checking the private key failed. '', ERR_print_errors_fp])
        else let t7 = t6 @ [SSL_CTX_set_ecdh_auto, SSL_CTX_set_verify SSL_VERIFY_NONE None,
                            SSL_new];
                 k2 = k1\<lparr>ssl := r_SSL_new lib\<rparr>
        in if ssl k2 = None then
             (HANDSHAKE_ERROR_STATUS, this\<lparr>k_ptr := Some k2\<rparr>,
              t7 @ [printf ''Error: cannot create new SSL*.''])
        else let t8 = t7 @ [BIO_new_dgram rtpSocket];
                 k3 = k2\<lparr>bio := r_BIO_new_dgram lib\<rparr>
        in if bio k3 = None then
             (HANDSHAKE_ERROR_STATUS, this\<lparr>k_ptr := Some k3\<rparr>,
              t8 @ [printf ''Error: cannot create new BIO*.''])
        else let t9 = t8 @ [SSL_set_bio, SSL_set_info_callback cb_krx_ssl_info_callback,
                            SSL_set_accept_state, SSL_accept]
        in if r_SSL_accept lib \<le> 0 then
             (HANDSHAKE_ERROR_STATUS, this\<lparr>k_ptr := Some k3\<rparr>,
              t9 @ [printf ''Failed to complete SSL handshake.''])
        else (0, this\<lparr>k_ptr := Some k3\<rparr>,
              t9 @ [printf ''DTLS Handshake completed.'', ERR_print_errors_fp])))"


text \<open>
  \<open>Dtls::DoHandshake\<close> (SIPSorcery.Media/Dtls.cpp), the responder of the older class.
  It sets the verification mode twice, registers both cookie callbacks, does not check
  the result of \<open>BIO_new_dgram\<close> and ignores what \<open>DTLSv1_listen\<close> returns.
\<close>

definition DoHandshake ::
    "openssl \<Rightarrow> Dtls \<Rightarrow> nat \<Rightarrow> fault + (int \<times> Dtls \<times> call list)" where
  "DoHandshake lib this rtpSocket =
   (case k_ptr this of
      None \<Rightarrow> Inl NullPointerDereference
    | Some k0 \<Rightarrow> Inr
       (let k1 = k0\<lparr>ctx := r_SSL_CTX_new lib\<rparr>;
            t1 = [ERR_print_errors_fp, SSL_CTX_new DTLS_method]
        in if ctx k1 = None then
             (HANDSHAKE_ERROR_STATUS, this\<lparr>k_ptr := Some k1\<rparr>,
              t1 @ [printf ''Error: cannot create SSL_CTX.'', ERR_print_errors_fp])
        else let t2 = t1 @ [SSL_CTX_set_cipher_list ''ALL:!ADH:!LOW:!EXP:!MD5:@STRENGTH'']
        in if r_SSL_CTX_set_cipher_list lib \<noteq> 1 then
             (HANDSHAKE_ERROR_STATUS, this\<lparr>k_ptr := Some k1\<rparr>,
              t2 @ [printf ''Error: cannot set the cipher list.'', ERR_print_errors_fp])
        else let t3 = t2 @ [SSL_CTX_set_ecdh_auto,
                            SSL_CTX_set_verify SSL_VERIFY_PEER (Some cb_krx_ssl_verify_peer),
                            SSL_CTX_set_tlsext_use_srtp SRTP_ALGORITHM]
        in if r_SSL_CTX_set_tlsext_use_srtp lib \<noteq> 0 then
             (HANDSHAKE_ERROR_STATUS, this\<lparr>k_ptr := Some k1\<rparr>,
              t3 @ [printf ''Error: cannot setup srtp.'', ERR_print_errors_fp])
        else let t4 = t3 @ [SSL_CTX_use_certificate_file (certFile this)]
        in if r_SSL_CTX_use_certificate_file lib (certFile this) \<noteq> 1 then
             (HANDSHAKE_ERROR_STATUS, this\<lparr>k_ptr := Some k1\<rparr>,
              t4 @ [printf ''Error: cannot load certificate file.'', ERR_print_errors_fp])
        else let t5 = t4 @ [SSL_CTX_use_PrivateKey_file (keyFile this)]
        in if r_SSL_CTX_use_PrivateKey_file lib (keyFile this) \<noteq> 1 then
             (HANDSHAKE_ERROR_STATUS, this\<lparr>k_ptr := Some k1\<rparr>,
              t5 @ [printf ''Error: cannot load private key file.'', ERR_print_errors_fp])
        else let t6 = t5 @ [SSL_CTX_check_private_key]
        in if r_SSL_CTX_check_private_key lib \<noteq> 1 then
             (HANDSHAKE_ERROR_STATUS, this\<lparr>k_ptr := Some k1\<rparr>,
              t6 @ [printf ''Error: checking the private key failed. '', ERR_print_errors_fp])
        else let t7 = t6 @ [SSL_CTX_set_cookie_generate_cb cb_generate_cookie,
                            SSL_CTX_set_cookie_verify_cb cb_verify_cookie,
                            SSL_CTX_set_ecdh_auto, SSL_CTX_set_verify SSL_VERIFY_NONE None,
                            SSL_new];
                 k2 = k1\<lparr>ssl := r_SSL_new lib\<rparr>
        in if ssl k2 = None then
             (HANDSHAKE_ERROR_STATUS, this\<lparr>k_ptr := Some k2\<rparr>,
              t7 @ [printf ''Error: cannot create new SSL*.''])
        else let k3 = k2\<lparr>bio := r_BIO_new_dgram lib\<rparr>;
                 t8 = t7 @ [BIO_new_dgram rtpSocket, SSL_set_bio,
                            SSL_set_info_callback cb_krx_ssl_info_callback,
                            SSL_set_accept_state, DTLSv1_listen,
                            printf ''New DTLS client connection.'', SSL_accept]
        in if r_SSL_accept lib \<le> 0 then
             (HANDSHAKE_ERROR_STATUS, this\<lparr>k_ptr := Some k3\<rparr>,
              t8 @ [printf ''Failed to complete SSL handshake.''])
        else (0, this\<lparr>k_ptr := Some k3\<rparr>,
              t8 @ [printf ''DTLS Handshake completed.'', ERR_print_errors_fp])))"

text \<open>Reading a result: the status, the object and the calls; a fault made no call
  that matters and returned nothing.\<close>

definition status_of :: "fault + (int \<times> Dtls \<times> call list) \<Rightarrow> int option" where
  "status_of r = (case r of Inl f \<Rightarrow> None | Inr (st, obj, t) \<Rightarrow> Some st)"

definition object_of :: "fault + (int \<times> Dtls \<times> call list) \<Rightarrow> Dtls option" where
  "object_of r = (case r of Inl f \<Rightarrow> None | Inr (st, obj, t) \<Rightarrow> Some obj)"

definition calls_of :: "fault + (int \<times> Dtls \<times> call list) \<Rightarrow> call list" where
  "calls_of r = (case r of Inl f \<Rightarrow> [] | Inr (st, obj, t) \<Rightarrow> t)"


text \<open>Whether a run touched the cookie machinery at all.\<close>

fun is_cookie_call :: "call \<Rightarrow> bool" where
  "is_cookie_call (SSL_CTX_set_cookie_generate_cb cb) = True"
| "is_cookie_call (SSL_CTX_set_cookie_verify_cb cb) = True"
| "is_cookie_call DTLSv1_listen = True"
| "is_cookie_call c = False"

text \<open>The calls made before the first occurrence of a given call.\<close>

definition calls_before :: "call \<Rightarrow> call list \<Rightarrow> call list" where
  "calls_before c cs = takeWhile (\<lambda>x. x \<noteq> c) cs"

section \<open>Handshake over memory buffers (DtlsManaged.h, DtlsManaged.cpp)\<close>

text \<open>
  The third class drives the same handshake through two memory BIOs that the caller
  pumps. Its \<open>krx\<close> has other fields than the one above; its names carry the
  suffix \<open>_m\<close> here, since \<open>ctx\<close>, \<open>ssl\<close> and the class fields are taken.
  \<open>new krx()\<close> zeroes the struct, so \<open>name\<close> starts empty.
\<close>

record krx_m =
  ctx_m :: ptr
  ssl_m :: ptr
  in_bio :: ptr
  out_bio :: ptr
  name_m :: string

record DtlsManaged =
  k_ptr_m :: "krx_m option"
  certFile_m :: string
  keyFile_m :: string
  handshakeComplete_m :: bool



text \<open>The answers of the library to the calls only this class makes: the two
  \<open>BIO_new\<close> calls, \<open>BIO_write\<close> on a buffer and a length,
  \<open>SSL_is_init_finished\<close> and \<open>SSL_do_handshake\<close>.\<close>

record openssl_mem =
  r_BIO_new_in :: ptr
  r_BIO_new_out :: ptr
  r_BIO_write :: "byte list \<Rightarrow> int \<Rightarrow> int"
  r_SSL_is_init_finished :: int
  r_SSL_do_handshake :: int

definition DtlsManaged_new :: "string \<Rightarrow> string \<Rightarrow> DtlsManaged" where
  "DtlsManaged_new cert keyf =
     \<lparr>k_ptr_m = Some \<lparr>ctx_m = None, ssl_m = None, in_bio = None, out_bio = None,
                        name_m = []\<rparr>,
      certFile_m = cert, keyFile_m = keyf, handshakeComplete_m = False\<rparr>"

text \<open>
  \<open>DtlsManaged::Init\<close>: the set-up of the responder, with its own return code for
  each failure. It sets the verification mode once, to \<open>SSL_VERIFY_PEER\<close> with
  \<open>krx_ssl_verify_peer\<close>, and never to \<open>SSL_VERIFY_NONE\<close>.
\<close>

definition Init ::
    "openssl \<Rightarrow> openssl_mem \<Rightarrow> DtlsManaged
       \<Rightarrow> fault + (int \<times> DtlsManaged \<times> call list)" where
  "Init lib mem this =
   (case k_ptr_m this of
      None \<Rightarrow> Inl NullPointerDereference
    | Some k0 \<Rightarrow> Inr
       (let k1 = k0\<lparr>ctx_m := r_SSL_CTX_new lib\<rparr>;
            t1 = [ERR_print_errors_fp, SSL_CTX_new DTLS_method]
        in if ctx_m k1 = None then
             (- 1, this\<lparr>k_ptr_m := Some k1\<rparr>,
              t1 @ [printf ''Error: cannot create SSL_CTX.'', ERR_print_errors_fp])
        else let t2 = t1 @ [SSL_CTX_set_cipher_list ''ALL:!ADH:!LOW:!EXP:!MD5:@STRENGTH'']
        in if r_SSL_CTX_set_cipher_list lib \<noteq> 1 then
             (- 2, this\<lparr>k_ptr_m := Some k1\<rparr>,
              t2 @ [printf ''Error: cannot set the cipher list.'', ERR_print_errors_fp])
        else let t3 = t2 @ [SSL_CTX_set_ecdh_auto,
                            SSL_CTX_set_verify SSL_VERIFY_PEER (Some cb_krx_ssl_verify_peer),
                            SSL_CTX_set_tlsext_use_srtp ''SRTP_AES128_CM_SHA1_80'']
        in if r_SSL_CTX_set_tlsext_use_srtp lib \<noteq> 0 then
             (- 3, this\<lparr>k_ptr_m := Some k1\<rparr>,
              t3 @ [printf ''Error: cannot setup srtp.'', ERR_print_errors_fp])
        else let t4 = t3 @ [SSL_CTX_use_certificate_file (certFile_m this)]
        in if r_SSL_CTX_use_certificate_file lib (certFile_m this) \<noteq> 1 then
             (- 4, this\<lparr>k_ptr_m := Some k1\<rparr>,
              t4 @ [printf ''Error: cannot load certificate file.'', ERR_print_errors_fp])
        else let t5 = t4 @ [SSL_CTX_use_PrivateKey_file (keyFile_m this)]
        in if r_SSL_CTX_use_PrivateKey_file lib (keyFile_m this) \<noteq> 1 then
             (- 5, this\<lparr>k_ptr_m := Some k1\<rparr>,
              t5 @ [printf ''Error: cannot load private key file.'', ERR_print_errors_fp])
        else let t6 = t5 @ [SSL_CTX_check_private_key]
        in if r_SSL_CTX_check_private_key lib \<noteq> 1 then
             (- 6, this\<lparr>k_ptr_m := Some k1\<rparr>,
              t6 @ [printf ''Error: checking the private key failed. '', ERR_print_errors_fp])
        else let t7 = t6 @ [sprintf_name ''+ server'', SSL_new];
                 k2 = k1\<lparr>name_m := ''+ server'', ssl_m := r_SSL_new lib\<rparr>
        in if ssl_m k2 = None then
             (- 7, this\<lparr>k_ptr_m := Some k2\<rparr>,
              t7 @ [printf ''Error: cannot create new SSL*.''])
        else let t8 = t7 @ [SSL_set_info_callback cb_krx_ssl_info_callback,
                            DTLS_set_link_mtu 1400, SSL_set_mtu 1400, BIO_new_mem];
                 k3 = k2\<lparr>in_bio := r_BIO_new_in mem\<rparr>
        in if in_bio k3 = None then
             (- 2, this\<lparr>k_ptr_m := Some k3\<rparr>,
              t8 @ [printf ''Error: cannot allocate read bio.''])
        else let t9 = t8 @ [BIO_set_mem_eof_return, BIO_new_mem];
                 k4 = k3\<lparr>out_bio := r_BIO_new_out mem\<rparr>
        in if out_bio k4 = None then
             (- 3, this\<lparr>k_ptr_m := Some k4\<rparr>,
              t9 @ [printf ''Error: cannot allocate write bio.''])
        else (0, this\<lparr>k_ptr_m := Some k4\<rparr>,
              t9 @ [BIO_set_mem_eof_return, SSL_set_bio, SSL_set_accept_state,
                    ERR_print_errors_fp])))"



definition object_of_m :: "fault + (int \<times> DtlsManaged \<times> call list) \<Rightarrow> DtlsManaged option" where
  "object_of_m r = (case r of Inl f \<Rightarrow> None | Inr (st, obj, t) \<Rightarrow> Some obj)"

definition calls_of_m :: "fault + (int \<times> DtlsManaged \<times> call list) \<Rightarrow> call list" where
  "calls_of_m r = (case r of Inl f \<Rightarrow> [] | Inr (st, obj, t) \<Rightarrow> t)"

section \<open>Secure media session (Srtp.h, Srtp.cpp)\<close>

text \<open>
  The fields of libsrtp's \<open>srtp_policy_t\<close> that the constructors assign. The two
  crypto policies are whatever \<open>srtp_crypto_policy_set_rtp_default\<close> and
  \<open>srtp_crypto_policy_set_rtcp_default\<close> fill in; \<open>ssrc.value\<close> is left
  unassigned by the byte-array constructor (\<open>None\<close>).
\<close>

datatype srtp_ssrc_type_t = ssrc_undefined | ssrc_specific | ssrc_any_inbound | ssrc_any_outbound

datatype crypto_policy = rtp_default | rtcp_default

record srtp_policy_t =
  rtp :: crypto_policy
  rtcp :: crypto_policy
  key :: "byte list"
  ssrc_type :: srtp_ssrc_type_t
  ssrc_value :: "nat option"
  window_size :: nat
  allow_repeat_tx :: int
  enc_xtn_hdr_count :: nat
  next_policy :: ptr

definition SRTP_ANTI_REPLAY_WINDOW_SIZE :: nat where
  "SRTP_ANTI_REPLAY_WINDOW_SIZE = 128"

definition srtp_err_status_ok :: int where
  "srtp_err_status_ok = 0"

text \<open>
  A session as the wrapper sees it: the policy handed to \<open>srtp_create\<close> and the
  status that call returned. The class holds a pointer to it, null until a constructor
  reaches \<open>new srtp_t()\<close>.
\<close>

record srtp_t =
  policy :: srtp_policy_t
  create_status :: int

record Srtp =
  session :: "srtp_t option"

text \<open>The arguments of the one \<open>SSL_export_keying_material\<close> call.\<close>

record export_request =
  olen :: nat
  label :: string
  llen :: nat
  context_arg :: "byte list option"
  contextlen :: nat
  use_context :: int

text \<open>
  What is outside the repository and read by the wrapper: the two lengths
  \<open>SRTP_AES_128_KEY_LEN\<close> and \<open>SRTP_SALT_LEN\<close> of libsrtp's header, the answers of
  the exporter (its return value and the buffer it filled), of \<open>srtp_create\<close> and of
  the four packet transforms (status and buffer), and the indeterminate first content
  of the two stack arrays.
\<close>

record libsrtp =
  SRTP_AES_128_KEY_LEN :: nat
  SRTP_SALT_LEN :: nat
  SSL_export_keying_material :: "ptr \<Rightarrow> export_request \<Rightarrow> int \<times> byte list"
  srtp_create :: "srtp_policy_t \<Rightarrow> int"
  client_write_key0 :: "byte list"
  server_write_key0 :: "byte list"
  srtp_protect :: "srtp_t \<Rightarrow> byte list \<Rightarrow> int \<Rightarrow> int \<times> byte list"
  srtp_unprotect :: "srtp_t \<Rightarrow> byte list \<Rightarrow> int \<Rightarrow> int \<times> byte list"
  srtp_protect_rtcp :: "srtp_t \<Rightarrow> byte list \<Rightarrow> int \<Rightarrow> int \<times> byte list"
  srtp_unprotect_rtcp :: "srtp_t \<Rightarrow> byte list \<Rightarrow> int \<Rightarrow> int \<times> byte list"

definition SRTP_AES_KEY_KEY_LEN :: "libsrtp \<Rightarrow> nat" where
  "SRTP_AES_KEY_KEY_LEN lib = SRTP_AES_128_KEY_LEN lib"

text \<open>Lines 54 to 70 of Srtp.cpp: the size of \<open>dtls_buffer\<close>, the label and the
  remaining arguments of the export.\<close>

definition keying_material_request :: "libsrtp \<Rightarrow> export_request" where
  "keying_material_request lib =
     \<lparr>olen = SRTP_AES_KEY_KEY_LEN lib * 2 + SRTP_SALT_LEN lib * 2,
      label = ''EXTRACTOR-dtls_srtp'',
      llen = length ''EXTRACTOR-dtls_srtp'',
      context_arg = None, contextlen = 0, use_context = 0\<rparr>"

text \<open>Lines 78 to 84: the four \<open>memcpy\<close> calls, with the running \<open>offset\<close>.
  The result is \<open>(client_write_key, server_write_key)\<close>.\<close>

definition copy_write_keys :: "libsrtp \<Rightarrow> byte list \<Rightarrow> byte list \<times> byte list" where
  "copy_write_keys lib dtls_buffer =
     (let offset0 = 0;
          cw1 = memcpy (client_write_key0 lib) 0 dtls_buffer offset0 (SRTP_AES_KEY_KEY_LEN lib);
          offset1 = offset0 + SRTP_AES_KEY_KEY_LEN lib;
          sw1 = memcpy (server_write_key0 lib) 0 dtls_buffer offset1 (SRTP_AES_KEY_KEY_LEN lib);
          offset2 = offset1 + SRTP_AES_KEY_KEY_LEN lib;
          cw2 = memcpy cw1 (SRTP_AES_KEY_KEY_LEN lib) dtls_buffer offset2 (SRTP_SALT_LEN lib);
          offset3 = offset2 + SRTP_SALT_LEN lib;
          sw2 = memcpy sw1 (SRTP_AES_KEY_KEY_LEN lib) dtls_buffer offset3 (SRTP_SALT_LEN lib)
      in (cw2, sw2))"

text \<open>
  \<open>Srtp::Srtp(Dtls^, bool)\<close>: the object and what it printed. No path raises; where
  the export fails the object keeps its null \<open>_session\<close>. Left out: the once-only
  \<open>srtp_init\<close>, the call of \<open>SSL_get_selected_srtp_profile\<close> (its result is never
  read) and the status number inside the last printed line.
\<close>

definition Srtp_from_Dtls :: "libsrtp \<Rightarrow> Dtls \<Rightarrow> bool \<Rightarrow> Srtp \<times> string list" where
  "Srtp_from_Dtls lib dtlsContext isClient =
     (case SSL_export_keying_material lib (GetSSL dtlsContext) (keying_material_request lib) of
        (res, dtls_buffer) \<Rightarrow>
          if res \<noteq> 1 then
            (\<lparr>session = None\<rparr>, [''Export of SSL key information failed.''])
          else
            (case copy_write_keys lib dtls_buffer of
               (client_write_key, server_write_key) \<Rightarrow>
                 let pol = \<lparr>rtp = rtp_default, rtcp = rtcp_default,
                            key = (if isClient then client_write_key else server_write_key),
                            ssrc_type = (if isClient then ssrc_any_inbound else ssrc_any_outbound),
                            ssrc_value = Some 0,
                            window_size = SRTP_ANTI_REPLAY_WINDOW_SIZE,
                            allow_repeat_tx = 0,
                            enc_xtn_hdr_count = 0,
                            next_policy = None\<rparr>;
                     err = srtp_create lib pol
                 in (\<lparr>session = Some \<lparr>policy = pol, create_status = err\<rparr>\<rparr>,
                     (if err \<noteq> srtp_err_status_ok then [''Unable to create SRTP session.'']
                      else [])
                     @ [if isClient then ''Create srtp client session result''
                        else ''Create srtp server session result''])))"

text \<open>\<open>Srtp::Srtp(cli::array<System::Byte>^, bool)\<close>: \<open>&key[0]\<close> raises on an
  empty array; the direction chosen for a flag is the opposite of the other
  constructor's.\<close>

definition Srtp_from_key :: "libsrtp \<Rightarrow> byte list \<Rightarrow> bool \<Rightarrow> fault + Srtp \<times> string list" where
  "Srtp_from_key lib key_bytes isClient =
     (if key_bytes = [] then Inl IndexOutOfRange
      else
        let pol = \<lparr>rtp = rtp_default, rtcp = rtcp_default,
                   key = key_bytes,
                   ssrc_type = (if isClient then ssrc_any_outbound else ssrc_any_inbound),
                   ssrc_value = None,
                   window_size = SRTP_ANTI_REPLAY_WINDOW_SIZE,
                   allow_repeat_tx = 0,
                   enc_xtn_hdr_count = 0,
                   next_policy = None\<rparr>;
            err = srtp_create lib pol
        in Inr (\<lparr>session = Some \<lparr>policy = pol, create_status = err\<rparr>\<rparr>,
                [''Create srtp session result'']))"





text \<open>
  The layout as the specification words it, to compare the constructor's copies with:
  the block is four consecutive fields, client key, server key, client salt and server
  salt, the keys of one length and the salts of another.
\<close>

definition key_client :: "libsrtp \<Rightarrow> byte list \<Rightarrow> byte list" where
  "key_client lib buf = take (SRTP_AES_128_KEY_LEN lib) buf"

definition key_server :: "libsrtp \<Rightarrow> byte list \<Rightarrow> byte list" where
  "key_server lib buf = take (SRTP_AES_128_KEY_LEN lib) (drop (SRTP_AES_128_KEY_LEN lib) buf)"

definition salt_client :: "libsrtp \<Rightarrow> byte list \<Rightarrow> byte list" where
  "salt_client lib buf = take (SRTP_SALT_LEN lib) (drop (2 * SRTP_AES_128_KEY_LEN lib) buf)"

definition salt_server :: "libsrtp \<Rightarrow> byte list \<Rightarrow> byte list" where
  "salt_server lib buf =
     take (SRTP_SALT_LEN lib) (drop (2 * SRTP_AES_128_KEY_LEN lib + SRTP_SALT_LEN lib) buf)"

text \<open>
  The direction a session serves, by libsrtp's meaning of the wildcard types: a policy
  of type \<open>ssrc_any_outbound\<close> keys the packets the session protects (send), one of
  type \<open>ssrc_any_inbound\<close> those it unprotects (receive).
\<close>

definition send_key :: "Srtp \<Rightarrow> byte list option" where
  "send_key s =
     (case session s of
        None \<Rightarrow> None
      | Some t \<Rightarrow> if ssrc_type (policy t) = ssrc_any_outbound then Some (key (policy t)) else None)"

definition recv_key :: "Srtp \<Rightarrow> byte list option" where
  "recv_key s =
     (case session s of
        None \<Rightarrow> None
      | Some t \<Rightarrow> if ssrc_type (policy t) = ssrc_any_inbound then Some (key (policy t)) else None)"

section \<open>Sample runs\<close>

text \<open>
  One concrete run, used to exercise the theorems below: a library in which every call
  succeeds, the responder object such a handshake leaves behind, an exporter that
  answers for that connection (the \<open>SSL\<close> at address 2) with the block
  \<open>0, 1, \<dots>, 59\<close> and fails for any other, and libsrtp's lengths 16 and 14.
\<close>

definition example_block :: "byte list" where
  "example_block = map of_nat [0..<60]"

definition example_libsrtp :: libsrtp where
  "example_libsrtp =
     \<lparr>SRTP_AES_128_KEY_LEN = 16, SRTP_SALT_LEN = 14,
      SSL_export_keying_material =
        (\<lambda>p req. if p = Some 2 then (1, take (olen req) example_block)
                  else (0, replicate (olen req) 0)),
      srtp_create = (\<lambda>pol. 0),
      client_write_key0 = replicate 30 170,
      server_write_key0 = replicate 30 85,
      srtp_protect = (\<lambda>s b n. (0, b)),
      srtp_unprotect = (\<lambda>s b n. (0, b)),
      srtp_protect_rtcp = (\<lambda>s b n. (0, b)),
      srtp_unprotect_rtcp = (\<lambda>s b n. (0, b))\<rparr>"

definition example_openssl :: openssl where
  "example_openssl =
     \<lparr>r_SSL_CTX_new = Some 1,
      r_SSL_CTX_set_cipher_list = 1,
      r_SSL_CTX_set_tlsext_use_srtp = 0,
      r_SSL_CTX_use_certificate_file = (\<lambda>f. 1),
      r_SSL_CTX_use_PrivateKey_file = (\<lambda>f. 1),
      r_SSL_CTX_check_private_key = 1,
      r_SSL_new = Some 2,
      r_BIO_new_dgram = Some 3,
      r_BIO_ctrl = 1,
      r_SSL_accept = 1,
      r_SSL_connect = 1\<rparr>"

definition example_completed :: Dtls where
  "example_completed =
     \<lparr>k_ptr = Some \<lparr>ctx = Some 1, ssl = Some 2, bio = Some 3\<rparr>,
      certFile = ''localhost.pem'', keyFile = ''localhost_key.pem'',
      handshakeComplete = False\<rparr>"



text \<open>The answers to the memory-buffer class in the sample run: both buffers are
  allocated, a write takes the whole datagram, and the handshake step completes.\<close>

definition example_openssl_mem :: openssl_mem where
  "example_openssl_mem =
     \<lparr>r_BIO_new_in = Some 5,
      r_BIO_new_out = Some 6,
      r_BIO_write = (\<lambda>b n. n),
      r_SSL_is_init_finished = 0,
      r_SSL_do_handshake = 1\<rparr>"

text \<open>The object \<open>Init\<close> leaves behind in the sample run.\<close>

definition example_managed :: DtlsManaged where
  "example_managed =
     \<lparr>k_ptr_m = Some \<lparr>ctx_m = Some 1, ssl_m = Some 2, in_bio = Some 5, out_bio = Some 6,
                        name_m = ''+ server''\<rparr>,
      certFile_m = ''localhost.pem'', keyFile_m = ''localhost_key.pem'',
      handshakeComplete_m = False\<rparr>"

definition forged_cookie :: "byte list" where
  "forged_cookie = map of_char ''SIPSORCERY'' @ [0]"

section \<open>Theorems\<close>

lemma length_DTLS_COOKIE: "length DTLS_COOKIE = 11"
  by (simp add: DTLS_COOKIE_def)

lemma generated_cookie_const: "generated_cookie ssl_p cookie = DTLS_COOKIE"
  by (simp add: generated_cookie_def generate_cookie_def memcpy_def Let_def)

subsection \<open>Key material: request and layout\<close>

lemma copy_write_keys_eq:
  assumes "length buf = 2 * SRTP_AES_128_KEY_LEN lib + 2 * SRTP_SALT_LEN lib"
      and "length (client_write_key0 lib) = SRTP_AES_128_KEY_LEN lib + SRTP_SALT_LEN lib"
      and "length (server_write_key0 lib) = SRTP_AES_128_KEY_LEN lib + SRTP_SALT_LEN lib"
  shows "copy_write_keys lib buf =
           (key_client lib buf @ salt_client lib buf, key_server lib buf @ salt_server lib buf)"
  using assms
  by (simp add: copy_write_keys_def memcpy_def SRTP_AES_KEY_KEY_LEN_def Let_def
        key_client_def key_server_def salt_client_def salt_server_def mult_2 add.commute)

lemma fields_partition:
  assumes "length buf = 2 * SRTP_AES_128_KEY_LEN lib + 2 * SRTP_SALT_LEN lib"
  shows "key_client lib buf @ key_server lib buf @ salt_client lib buf @ salt_server lib buf = buf"
proof -
  let ?k = "SRTP_AES_128_KEY_LEN lib" and ?s = "SRTP_SALT_LEN lib"
  have a: "take ?s (drop (2 * ?k + ?s) buf) = drop ?s (drop (2 * ?k) buf)"
    using assms by (simp add: add.commute)
  have b: "drop (2 * ?k) buf = drop ?k (drop ?k buf)"
    by (simp add: mult_2)
  have "take ?s (drop (2 * ?k) buf) @ take ?s (drop (2 * ?k + ?s) buf) = drop (2 * ?k) buf"
    unfolding a by (rule append_take_drop_id)
  then have "take ?k (drop ?k buf) @ take ?s (drop (2 * ?k) buf) @ take ?s (drop (2 * ?k + ?s) buf)
             = take ?k (drop ?k buf) @ drop ?k (drop ?k buf)"
    unfolding b by simp
  also have "\<dots> = drop ?k buf"
    by (rule append_take_drop_id)
  finally have "take ?k buf @ take ?k (drop ?k buf) @ take ?s (drop (2 * ?k) buf)
                  @ take ?s (drop (2 * ?k + ?s) buf) = take ?k buf @ drop ?k buf"
    by simp
  then show ?thesis
    unfolding key_client_def key_server_def salt_client_def salt_server_def
    by (simp only: append_take_drop_id)
qed

lemma field_lengths:
  assumes "length buf = 2 * SRTP_AES_128_KEY_LEN lib + 2 * SRTP_SALT_LEN lib"
  shows "length (key_client lib buf) = SRTP_AES_128_KEY_LEN lib"
    and "length (key_server lib buf) = SRTP_AES_128_KEY_LEN lib"
    and "length (salt_client lib buf) = SRTP_SALT_LEN lib"
    and "length (salt_server lib buf) = SRTP_SALT_LEN lib"
  using assms by (simp_all add: key_client_def key_server_def salt_client_def salt_server_def)

lemma olen_request:
  "olen (keying_material_request lib) = 2 * SRTP_AES_128_KEY_LEN lib + 2 * SRTP_SALT_LEN lib"
  by (simp add: keying_material_request_def SRTP_AES_KEY_KEY_LEN_def)

lemma Srtp_from_Dtls_exported:
  assumes "SSL_export_keying_material lib (GetSSL dtlsContext) (keying_material_request lib) = (1, buf)"
      and "length buf = olen (keying_material_request lib)"
      and "length (client_write_key0 lib) = SRTP_AES_KEY_KEY_LEN lib + SRTP_SALT_LEN lib"
      and "length (server_write_key0 lib) = SRTP_AES_KEY_KEY_LEN lib + SRTP_SALT_LEN lib"
  shows "\<exists>t. session (fst (Srtp_from_Dtls lib dtlsContext isClient)) = Some t
            \<and> key (policy t) = (if isClient then key_client lib buf @ salt_client lib buf
                                else key_server lib buf @ salt_server lib buf)
            \<and> ssrc_type (policy t) = (if isClient then ssrc_any_inbound else ssrc_any_outbound)"
proof -
  have len: "length buf = 2 * SRTP_AES_128_KEY_LEN lib + 2 * SRTP_SALT_LEN lib"
    using assms(2) by (simp add: olen_request)
  have ck: "copy_write_keys lib buf =
           (key_client lib buf @ salt_client lib buf, key_server lib buf @ salt_server lib buf)"
    using len assms(3,4) by (intro copy_write_keys_eq) (simp_all add: SRTP_AES_KEY_KEY_LEN_def)
  show ?thesis
    by (simp add: Srtp_from_Dtls_def assms(1) ck Let_def)
qed

lemma ex_h1: "SSL_export_keying_material example_libsrtp (GetSSL example_completed)
         (keying_material_request example_libsrtp) = (1, example_block)"
  by (simp add: example_libsrtp_def example_completed_def GetSSL_def keying_material_request_def
        SRTP_AES_KEY_KEY_LEN_def example_block_def)

lemma ex_h2: "length example_block = olen (keying_material_request example_libsrtp)"
  by (simp add: example_libsrtp_def keying_material_request_def
        SRTP_AES_KEY_KEY_LEN_def example_block_def)

lemma ex_h3: "length (client_write_key0 example_libsrtp) =
     SRTP_AES_KEY_KEY_LEN example_libsrtp + SRTP_SALT_LEN example_libsrtp"
  "length (server_write_key0 example_libsrtp) =
     SRTP_AES_KEY_KEY_LEN example_libsrtp + SRTP_SALT_LEN example_libsrtp"
  by (simp_all add: example_libsrtp_def SRTP_AES_KEY_KEY_LEN_def)

text \<open>
  Claim C2. Whenever the export succeeds (the handshake session is completed) and the
  library filled the buffer it was given, the constructor has asked for exactly
  \<open>2 \<times> (key length + salt length)\<close> bytes under the label
  \<open>EXTRACTOR-dtls_srtp\<close>, the block is the concatenation of four fields in the order
  client key, server key, client salt, server salt, of the fixed lengths, the client
  write key is client key followed by client salt and the server write key is server
  key followed by server salt, and the key of the session built is one of these two.
\<close>

theorem keying_material_layout:
  assumes "SSL_export_keying_material lib (GetSSL dtlsContext) (keying_material_request lib) = (1, buf)"
      and "length buf = olen (keying_material_request lib)"
      and "length (client_write_key0 lib) = SRTP_AES_KEY_KEY_LEN lib + SRTP_SALT_LEN lib"
      and "length (server_write_key0 lib) = SRTP_AES_KEY_KEY_LEN lib + SRTP_SALT_LEN lib"
  shows "olen (keying_material_request lib) = 2 * (SRTP_AES_KEY_KEY_LEN lib + SRTP_SALT_LEN lib)
       \<and> label (keying_material_request lib) = ''EXTRACTOR-dtls_srtp''
       \<and> llen (keying_material_request lib) = 19
       \<and> buf = key_client lib buf @ key_server lib buf @ salt_client lib buf @ salt_server lib buf
       \<and> length (key_client lib buf) = SRTP_AES_KEY_KEY_LEN lib
       \<and> length (key_server lib buf) = SRTP_AES_KEY_KEY_LEN lib
       \<and> length (salt_client lib buf) = SRTP_SALT_LEN lib
       \<and> length (salt_server lib buf) = SRTP_SALT_LEN lib
       \<and> copy_write_keys lib buf =
           (key_client lib buf @ salt_client lib buf, key_server lib buf @ salt_server lib buf)
       \<and> (\<exists>t. session (fst (Srtp_from_Dtls lib dtlsContext isClient)) = Some t
              \<and> key (policy t) = (if isClient then key_client lib buf @ salt_client lib buf
                                  else key_server lib buf @ salt_server lib buf))"
proof -
  have len: "length buf = 2 * SRTP_AES_128_KEY_LEN lib + 2 * SRTP_SALT_LEN lib"
    using assms(2) by (simp add: olen_request)
  have ck: "copy_write_keys lib buf =
           (key_client lib buf @ salt_client lib buf, key_server lib buf @ salt_server lib buf)"
    using len assms(3,4) by (intro copy_write_keys_eq) (simp_all add: SRTP_AES_KEY_KEY_LEN_def)
  have req: "label (keying_material_request lib) = ''EXTRACTOR-dtls_srtp''"
            "llen (keying_material_request lib) = 19"
    by (simp_all add: keying_material_request_def)
  have ol: "olen (keying_material_request lib) = 2 * (SRTP_AES_KEY_KEY_LEN lib + SRTP_SALT_LEN lib)"
    by (simp add: olen_request SRTP_AES_KEY_KEY_LEN_def)
  from Srtp_from_Dtls_exported [OF assms, of isClient]
  obtain t where t: "session (fst (Srtp_from_Dtls lib dtlsContext isClient)) = Some t"
     "key (policy t) = (if isClient then key_client lib buf @ salt_client lib buf
                                  else key_server lib buf @ salt_server lib buf)"
    by blast
  show ?thesis
    using fields_partition [OF len] field_lengths [OF len] ck req ol t
    by (simp add: SRTP_AES_KEY_KEY_LEN_def)
qed


text \<open>The same at the sample run, whose block is \<open>0, 1, \<dots>, 59\<close>.\<close>

theorem keying_material_layout_witness:
  "SSL_export_keying_material example_libsrtp (GetSSL example_completed)
         (keying_material_request example_libsrtp) = (1, example_block)
   \<and> length example_block = olen (keying_material_request example_libsrtp)
   \<and> length (client_write_key0 example_libsrtp) =
       SRTP_AES_KEY_KEY_LEN example_libsrtp + SRTP_SALT_LEN example_libsrtp
   \<and> length (server_write_key0 example_libsrtp) =
       SRTP_AES_KEY_KEY_LEN example_libsrtp + SRTP_SALT_LEN example_libsrtp
   \<and> olen (keying_material_request example_libsrtp) = 60
   \<and> copy_write_keys example_libsrtp example_block =
       (key_client example_libsrtp example_block @ salt_client example_libsrtp example_block,
        key_server example_libsrtp example_block @ salt_server example_libsrtp example_block)
   \<and> key_client example_libsrtp example_block = map of_nat [0..<16]
   \<and> key_server example_libsrtp example_block = map of_nat [16..<32]
   \<and> salt_client example_libsrtp example_block = map of_nat [32..<46]
   \<and> salt_server example_libsrtp example_block = map of_nat [46..<60]"
proof -
  have v: "key_client example_libsrtp example_block = map of_nat [0..<16]"
     "key_server example_libsrtp example_block = map of_nat [16..<32]"
     "salt_client example_libsrtp example_block = map of_nat [32..<46]"
     "salt_server example_libsrtp example_block = map of_nat [46..<60]"
    by (simp_all add: key_client_def key_server_def salt_client_def salt_server_def
          example_libsrtp_def example_block_def take_map drop_map)
  have o: "olen (keying_material_request example_libsrtp) = 60"
    by (simp add: example_libsrtp_def keying_material_request_def SRTP_AES_KEY_KEY_LEN_def)
  from keying_material_layout [OF ex_h1 ex_h2 ex_h3, of True] ex_h1 ex_h2 ex_h3 v o
  show ?thesis by simp
qed


subsection \<open>Which key serves which direction\<close>

text \<open>
  Claim C4, as amended. A session built from a handshake object holds one directional
  context, not two: with the flag set it is a receive context keyed by the client write
  key (client key, client salt), with the flag clear it is a send context keyed by the
  server write key (server key, server salt). The two sessions built from one block are
  the two halves of the responder's end.
\<close>

theorem Srtp_from_Dtls_direction:
  assumes "SSL_export_keying_material lib (GetSSL dtlsContext) (keying_material_request lib) = (1, buf)"
      and "length buf = olen (keying_material_request lib)"
      and "length (client_write_key0 lib) = SRTP_AES_KEY_KEY_LEN lib + SRTP_SALT_LEN lib"
      and "length (server_write_key0 lib) = SRTP_AES_KEY_KEY_LEN lib + SRTP_SALT_LEN lib"
  shows "recv_key (fst (Srtp_from_Dtls lib dtlsContext True))
           = Some (key_client lib buf @ salt_client lib buf)
       \<and> send_key (fst (Srtp_from_Dtls lib dtlsContext True)) = None
       \<and> send_key (fst (Srtp_from_Dtls lib dtlsContext False))
           = Some (key_server lib buf @ salt_server lib buf)
       \<and> recv_key (fst (Srtp_from_Dtls lib dtlsContext False)) = None"
proof -
  from Srtp_from_Dtls_exported [OF assms, of True]
  have c: "recv_key (fst (Srtp_from_Dtls lib dtlsContext True))
           = Some (key_client lib buf @ salt_client lib buf)"
     "send_key (fst (Srtp_from_Dtls lib dtlsContext True)) = None"
    by (auto simp add: recv_key_def send_key_def)
  from Srtp_from_Dtls_exported [OF assms, of False]
  have s: "send_key (fst (Srtp_from_Dtls lib dtlsContext False))
           = Some (key_server lib buf @ salt_server lib buf)"
     "recv_key (fst (Srtp_from_Dtls lib dtlsContext False)) = None"
    by (auto simp add: recv_key_def send_key_def)
  show ?thesis using c s by simp
qed


text \<open>The same at the sample run.\<close>

theorem Srtp_from_Dtls_direction_witness:
  "SSL_export_keying_material example_libsrtp (GetSSL example_completed)
         (keying_material_request example_libsrtp) = (1, example_block)
   \<and> length example_block = olen (keying_material_request example_libsrtp)
   \<and> length (client_write_key0 example_libsrtp) =
       SRTP_AES_KEY_KEY_LEN example_libsrtp + SRTP_SALT_LEN example_libsrtp
   \<and> length (server_write_key0 example_libsrtp) =
       SRTP_AES_KEY_KEY_LEN example_libsrtp + SRTP_SALT_LEN example_libsrtp
   \<and> recv_key (fst (Srtp_from_Dtls example_libsrtp example_completed True))
       = Some (map of_nat ([0..<16] @ [32..<46]))
   \<and> send_key (fst (Srtp_from_Dtls example_libsrtp example_completed False))
       = Some (map of_nat ([16..<32] @ [46..<60]))"
proof -
  have v: "key_client example_libsrtp example_block = map of_nat [0..<16]"
     "key_server example_libsrtp example_block = map of_nat [16..<32]"
     "salt_client example_libsrtp example_block = map of_nat [32..<46]"
     "salt_server example_libsrtp example_block = map of_nat [46..<60]"
    by (simp_all add: key_client_def key_server_def salt_client_def salt_server_def
          example_libsrtp_def example_block_def take_map drop_map)
  from Srtp_from_Dtls_direction [OF ex_h1 ex_h2 ex_h3] ex_h1 ex_h2 ex_h3
  show ?thesis by (simp add: v)
qed


text \<open>
  The byte-array constructor pairs the flag with the opposite direction (set: send,
  clear: receive), against the comment in Srtp.h that both constructors share.
\<close>

lemma Srtp_from_key_direction:
  assumes "key_bytes \<noteq> []"
  shows "\<exists>s out. Srtp_from_key lib key_bytes isClient = Inr (s, out)
           \<and> send_key s = (if isClient then Some key_bytes else None)
           \<and> recv_key s = (if isClient then None else Some key_bytes)"
  using assms by (simp add: Srtp_from_key_def send_key_def recv_key_def Let_def)

text \<open>
  Claim C4 as stated fails: at the sample run the send context of the session built
  with the flag clear and the receive context of the session built with the flag set
  hold different keys, and neither session has the opposite direction at all.
\<close>

theorem sessions_not_mirror_images:
  "send_key (fst (Srtp_from_Dtls example_libsrtp example_completed False))
     \<noteq> recv_key (fst (Srtp_from_Dtls example_libsrtp example_completed True))
   \<and> send_key (fst (Srtp_from_Dtls example_libsrtp example_completed True)) = None
   \<and> recv_key (fst (Srtp_from_Dtls example_libsrtp example_completed False)) = None"
  by code_simp


subsection \<open>Cookies\<close>

text \<open>
  Claim C3, as amended. \<open>generate_cookie\<close> succeeds and yields the 11 bytes of the
  constant; \<open>verify_cookie\<close> returns 1 for the generated cookie and for every other
  candidate, whatever its bytes and length, and it never raises.
\<close>

theorem verify_cookie_accepts_every_cookie:
  "fst (generate_cookie ssl_p buf) = 1
   \<and> generated_cookie ssl_p buf = DTLS_COOKIE
   \<and> length (generated_cookie ssl_p buf) = 11
   \<and> verify_cookie ssl_p (generated_cookie ssl_p buf) (length (generated_cookie ssl_p buf)) = 1
   \<and> verify_cookie ssl_p cookie cookie_len = 1"
  by (simp add: generated_cookie_const length_DTLS_COOKIE verify_cookie_def generate_cookie_def Let_def)


text \<open>
  Claim C3 as stated fails: a forged cookie of the same length as the generated one and
  with different bytes is verified, too.
\<close>

theorem forged_cookie_is_accepted:
  "length forged_cookie = length (generated_cookie (Some 2) (replicate 255 0))
   \<and> forged_cookie \<noteq> generated_cookie (Some 2) (replicate 255 0)
   \<and> verify_cookie (Some 2) forged_cookie (length forged_cookie) \<noteq> 0"
  by (simp add: generated_cookie_const verify_cookie_def forged_cookie_def DTLS_COOKIE_def)


subsection \<open>Shutdown\<close>

lemma Shutdown_nulls: "k_ptr (fst (Shutdown this)) = None"
  by (simp add: Shutdown_def split: option.splits)

lemma Shutdown_again:
  "k_ptr this = None \<Longrightarrow> Shutdown this = (this, [ERR_print_errors_fp])"
  by (simp add: Shutdown_def)

lemma Shutdown_funpow:
  "k_ptr this = None \<Longrightarrow> ((\<lambda>d. fst (Shutdown d)) ^^ n) this = this"
  by (induction n) (simp_all add: Shutdown_again)

text \<open>
  Claim C10. After \<open>Shutdown\<close> the internal pointer is null and \<open>GetSSL\<close>
  returns \<open>nullptr\<close>; the first call frees the context and shuts down and frees the
  connection, each if it is there; a second call, the destructor's call and any later
  call change nothing and free nothing: all they do is the dump of the library's error
  queue that opens the method.
\<close>

theorem Shutdown_idempotent:
  "k_ptr (fst (Shutdown this)) = None
   \<and> GetSSL (fst (Shutdown this)) = None
   \<and> Shutdown (fst (Shutdown this)) = (fst (Shutdown this), [ERR_print_errors_fp])
   \<and> Dtls_destructor (fst (Shutdown this)) = (fst (Shutdown this), [ERR_print_errors_fp])
   \<and> Shutdown (((\<lambda>d. fst (Shutdown d)) ^^ n) (fst (Shutdown this)))
        = (fst (Shutdown this), [ERR_print_errors_fp])
   \<and> (\<forall>kx. k_ptr this = Some kx \<longrightarrow>
         snd (Shutdown this) =
           [ERR_print_errors_fp]
           @ (case ctx kx of None \<Rightarrow> [] | Some c \<Rightarrow> [SSL_CTX_free c])
           @ (case ssl kx of None \<Rightarrow> [] | Some s \<Rightarrow> [SSL_shutdown s, SSL_free s]))
   \<and> (\<forall>kx c. k_ptr this = Some kx \<and> ctx kx = Some c \<longrightarrow> SSL_CTX_free c \<in> set (snd (Shutdown this)))
   \<and> (\<forall>kx s. k_ptr this = Some kx \<and> ssl kx = Some s \<longrightarrow> SSL_free s \<in> set (snd (Shutdown this)))"
proof -
  have n: "k_ptr (fst (Shutdown this)) = None" by (rule Shutdown_nulls)
  have g: "GetSSL (fst (Shutdown this)) = None" by (simp add: GetSSL_def n)
  have a: "Shutdown (fst (Shutdown this)) = (fst (Shutdown this), [ERR_print_errors_fp])"
    by (rule Shutdown_again [OF n])
  have p: "((\<lambda>d. fst (Shutdown d)) ^^ n) (fst (Shutdown this)) = fst (Shutdown this)"
    by (rule Shutdown_funpow [OF n])
  have r: "\<forall>kx. k_ptr this = Some kx \<longrightarrow>
         snd (Shutdown this) =
           [ERR_print_errors_fp]
           @ (case ctx kx of None \<Rightarrow> [] | Some c \<Rightarrow> [SSL_CTX_free c])
           @ (case ssl kx of None \<Rightarrow> [] | Some s \<Rightarrow> [SSL_shutdown s, SSL_free s])"
    by (simp add: Shutdown_def)
  have c: "\<forall>kx c. k_ptr this = Some kx \<and> ctx kx = Some c \<longrightarrow> SSL_CTX_free c \<in> set (snd (Shutdown this))"
    by (auto simp add: Shutdown_def)
  have s: "\<forall>kx s. k_ptr this = Some kx \<and> ssl kx = Some s \<longrightarrow> SSL_free s \<in> set (snd (Shutdown this))"
    by (auto simp add: Shutdown_def)
  show ?thesis
    using n g a r c s by (simp add: Dtls_destructor_def p)
qed


text \<open>The same at the object a completed handshake leaves behind.\<close>

theorem Shutdown_idempotent_witness:
  "k_ptr example_completed = Some \<lparr>ctx = Some 1, ssl = Some 2, bio = Some 3\<rparr>
   \<and> snd (Shutdown example_completed) = [ERR_print_errors_fp, SSL_CTX_free 1, SSL_shutdown 2, SSL_free 2]
   \<and> SSL_CTX_free 1 \<in> set (snd (Shutdown example_completed))
   \<and> SSL_free 2 \<in> set (snd (Shutdown example_completed))
   \<and> GetSSL example_completed = Some 2
   \<and> GetSSL (fst (Shutdown example_completed)) = None
   \<and> Shutdown (fst (Shutdown example_completed)) = (fst (Shutdown example_completed), [ERR_print_errors_fp])"
proof -
  have k: "k_ptr example_completed = Some \<lparr>ctx = Some 1, ssl = Some 2, bio = Some 3\<rparr>"
    by (simp add: example_completed_def)
  have g: "GetSSL example_completed = Some 2"
    by (simp add: GetSSL_def k)
  from Shutdown_idempotent [of example_completed 1] k g
  show ?thesis by simp
qed


subsection \<open>The handshake entry points\<close>

text \<open>
  The answers of the library are a parameter of each entry point, so a statement for
  every \<open>lib\<close> holds whatever the peer sends and whatever the library makes of it.
  First, when each entry point returns 0, and what it called on the way.
\<close>

lemma DoHandshakeAsServer_status:
  "status_of (DoHandshakeAsServer lib this sock) = Some 0 \<longleftrightarrow>
     k_ptr this \<noteq> None \<and> r_SSL_CTX_new lib \<noteq> None
     \<and> r_SSL_CTX_set_cipher_list lib = 1
     \<and> r_SSL_CTX_set_tlsext_use_srtp lib = 0
     \<and> r_SSL_CTX_use_certificate_file lib (certFile this) = 1
     \<and> r_SSL_CTX_use_PrivateKey_file lib (keyFile this) = 1
     \<and> r_SSL_CTX_check_private_key lib = 1
     \<and> r_SSL_new lib \<noteq> None \<and> r_BIO_new_dgram lib \<noteq> None
     \<and> 0 < r_SSL_accept lib"
  by (cases "k_ptr this")
     (auto simp add: DoHandshakeAsServer_def status_of_def HANDSHAKE_ERROR_STATUS_def Let_def)

lemma DoHandshake_status:
  "status_of (DoHandshake lib this sock) = Some 0 \<longleftrightarrow>
     k_ptr this \<noteq> None \<and> r_SSL_CTX_new lib \<noteq> None
     \<and> r_SSL_CTX_set_cipher_list lib = 1
     \<and> r_SSL_CTX_set_tlsext_use_srtp lib = 0
     \<and> r_SSL_CTX_use_certificate_file lib (certFile this) = 1
     \<and> r_SSL_CTX_use_PrivateKey_file lib (keyFile this) = 1
     \<and> r_SSL_CTX_check_private_key lib = 1
     \<and> r_SSL_new lib \<noteq> None
     \<and> 0 < r_SSL_accept lib"
  by (cases "k_ptr this")
     (auto simp add: DoHandshake_def status_of_def HANDSHAKE_ERROR_STATUS_def Let_def)


lemma DoHandshakeAsServer_no_cookie:
  "\<not> list_ex is_cookie_call (calls_of (DoHandshakeAsServer lib this sock))"
  by (cases "k_ptr this")
     (simp_all add: DoHandshakeAsServer_def calls_of_def Let_def)




lemma DoHandshakeAsServer_new_before_accept:
  "SSL_accept \<in> set (calls_of (DoHandshakeAsServer lib this sock)) \<Longrightarrow>
   SSL_new \<in> set (calls_before SSL_accept (calls_of (DoHandshakeAsServer lib this sock)))"
  by (cases "k_ptr this")
     (simp_all add: DoHandshakeAsServer_def calls_of_def calls_before_def Let_def split: if_splits)

lemma DoHandshake_new_before_listen:
  "DTLSv1_listen \<in> set (calls_of (DoHandshake lib this sock)) \<Longrightarrow>
   SSL_new \<in> set (calls_before DTLSv1_listen (calls_of (DoHandshake lib this sock)))
   \<and> SSL_CTX_set_cookie_generate_cb cb_generate_cookie
        \<in> set (calls_before DTLSv1_listen (calls_of (DoHandshake lib this sock)))
   \<and> SSL_CTX_set_cookie_verify_cb cb_verify_cookie
        \<in> set (calls_before DTLSv1_listen (calls_of (DoHandshake lib this sock)))"
  by (cases "k_ptr this")
     (simp_all add: DoHandshake_def calls_of_def calls_before_def Let_def split: if_splits)





lemma ex_run:
  "DoHandshakeAsServer example_openssl (Dtls_new ''localhost.pem'' ''localhost_key.pem'') 7 =
     Inr (0, example_completed,
       [ERR_print_errors_fp, SSL_CTX_new DTLS_server_method,
       SSL_CTX_set_cipher_list ''ALL:!ADH:!LOW:!EXP:!MD5:@STRENGTH'',
       SSL_CTX_set_tlsext_use_srtp ''SRTP_AES128_CM_SHA1_80'',
       SSL_CTX_use_certificate_file ''localhost.pem'',
       SSL_CTX_use_PrivateKey_file ''localhost_key.pem'',
       SSL_CTX_check_private_key, SSL_CTX_set_ecdh_auto,
       SSL_CTX_set_verify SSL_VERIFY_NONE None, SSL_new, BIO_new_dgram 7,
       SSL_set_bio, SSL_set_info_callback cb_krx_ssl_info_callback,
       SSL_set_accept_state, SSL_accept,
       printf ''DTLS Handshake completed.'', ERR_print_errors_fp])"
  by (simp add: DoHandshakeAsServer_def example_openssl_def Dtls_new_def example_completed_def
        SRTP_ALGORITHM_def Let_def)

lemma ex_run_old:
  "DoHandshake example_openssl (Dtls_new ''localhost.pem'' ''localhost_key.pem'') 7 =
     Inr (0, example_completed,
       [ERR_print_errors_fp, SSL_CTX_new DTLS_method,
       SSL_CTX_set_cipher_list ''ALL:!ADH:!LOW:!EXP:!MD5:@STRENGTH'',
       SSL_CTX_set_ecdh_auto,
       SSL_CTX_set_verify SSL_VERIFY_PEER (Some cb_krx_ssl_verify_peer),
       SSL_CTX_set_tlsext_use_srtp ''SRTP_AES128_CM_SHA1_80'',
       SSL_CTX_use_certificate_file ''localhost.pem'',
       SSL_CTX_use_PrivateKey_file ''localhost_key.pem'',
       SSL_CTX_check_private_key,
       SSL_CTX_set_cookie_generate_cb cb_generate_cookie,
       SSL_CTX_set_cookie_verify_cb cb_verify_cookie,
       SSL_CTX_set_ecdh_auto,
       SSL_CTX_set_verify SSL_VERIFY_NONE None, SSL_new, BIO_new_dgram 7,
       SSL_set_bio, SSL_set_info_callback cb_krx_ssl_info_callback,
       SSL_set_accept_state, DTLSv1_listen, printf ''New DTLS client connection.'', SSL_accept,
       printf ''DTLS Handshake completed.'', ERR_print_errors_fp])"
  by (simp add: DoHandshake_def example_openssl_def Dtls_new_def example_completed_def
        SRTP_ALGORITHM_def Let_def)


text \<open>
  Claim C6, as amended. The responder has no cookie gate.
  \<open>DoHandshakeAsServer\<close> registers no cookie callback and never calls
  \<open>DTLSv1_listen\<close>; it allocates the connection object (\<open>SSL_new\<close>) before
  \<open>SSL_accept\<close> reads a datagram, and it returns 0 exactly when every set-up call
  succeeds and \<open>SSL_accept\<close> returns a positive value. The older
  \<open>Dtls::DoHandshake\<close> does register the two cookie callbacks and calls
  \<open>DTLSv1_listen\<close>, but only after \<open>SSL_new\<close>; what the listen call returns
  plays no part in the result, and the verify callback accepts every cookie.
\<close>

theorem responder_has_no_cookie_gate:
  "\<not> list_ex is_cookie_call (calls_of (DoHandshakeAsServer lib this sock))
   \<and> (SSL_accept \<in> set (calls_of (DoHandshakeAsServer lib this sock)) \<longrightarrow>
        SSL_new \<in> set (calls_before SSL_accept (calls_of (DoHandshakeAsServer lib this sock))))
   \<and> (status_of (DoHandshakeAsServer lib this sock) = Some 0 \<longleftrightarrow>
        k_ptr this \<noteq> None \<and> r_SSL_CTX_new lib \<noteq> None
        \<and> r_SSL_CTX_set_cipher_list lib = 1
        \<and> r_SSL_CTX_set_tlsext_use_srtp lib = 0
        \<and> r_SSL_CTX_use_certificate_file lib (certFile this) = 1
        \<and> r_SSL_CTX_use_PrivateKey_file lib (keyFile this) = 1
        \<and> r_SSL_CTX_check_private_key lib = 1
        \<and> r_SSL_new lib \<noteq> None \<and> r_BIO_new_dgram lib \<noteq> None
        \<and> 0 < r_SSL_accept lib)
   \<and> (DTLSv1_listen \<in> set (calls_of (DoHandshake lib this sock)) \<longrightarrow>
        SSL_new \<in> set (calls_before DTLSv1_listen (calls_of (DoHandshake lib this sock)))
        \<and> SSL_CTX_set_cookie_generate_cb cb_generate_cookie
             \<in> set (calls_before DTLSv1_listen (calls_of (DoHandshake lib this sock)))
        \<and> SSL_CTX_set_cookie_verify_cb cb_verify_cookie
             \<in> set (calls_before DTLSv1_listen (calls_of (DoHandshake lib this sock))))
   \<and> (status_of (DoHandshake lib this sock) = Some 0 \<longleftrightarrow>
        k_ptr this \<noteq> None \<and> r_SSL_CTX_new lib \<noteq> None
        \<and> r_SSL_CTX_set_cipher_list lib = 1
        \<and> r_SSL_CTX_set_tlsext_use_srtp lib = 0
        \<and> r_SSL_CTX_use_certificate_file lib (certFile this) = 1
        \<and> r_SSL_CTX_use_PrivateKey_file lib (keyFile this) = 1
        \<and> r_SSL_CTX_check_private_key lib = 1
        \<and> r_SSL_new lib \<noteq> None
        \<and> 0 < r_SSL_accept lib)
   \<and> verify_cookie ssl_p cookie cookie_len = 1"
  using DoHandshakeAsServer_no_cookie [of lib this sock]
        DoHandshakeAsServer_new_before_accept [of lib this sock]
        DoHandshake_new_before_listen [of lib this sock]
  unfolding DoHandshakeAsServer_status DoHandshake_status
  by (simp add: verify_cookie_def)


text \<open>The same at the sample run, where both responders get to their last call.\<close>

theorem responder_has_no_cookie_gate_witness:
  "SSL_accept \<in> set (calls_of (DoHandshakeAsServer example_openssl
                                 (Dtls_new ''localhost.pem'' ''localhost_key.pem'') 7))
   \<and> SSL_new \<in> set (calls_before SSL_accept (calls_of (DoHandshakeAsServer example_openssl
                                 (Dtls_new ''localhost.pem'' ''localhost_key.pem'') 7)))
   \<and> DTLSv1_listen \<in> set (calls_of (DoHandshake example_openssl
                                 (Dtls_new ''localhost.pem'' ''localhost_key.pem'') 7))
   \<and> SSL_new \<in> set (calls_before DTLSv1_listen (calls_of (DoHandshake example_openssl
                                 (Dtls_new ''localhost.pem'' ''localhost_key.pem'') 7)))
   \<and> status_of (DoHandshakeAsServer example_openssl
                                 (Dtls_new ''localhost.pem'' ''localhost_key.pem'') 7) = Some 0
   \<and> status_of (DoHandshake example_openssl
                                 (Dtls_new ''localhost.pem'' ''localhost_key.pem'') 7) = Some 0"
proof -
  have a: "SSL_accept \<in> set (calls_of (DoHandshakeAsServer example_openssl
                                 (Dtls_new ''localhost.pem'' ''localhost_key.pem'') 7))"
    by (simp add: ex_run calls_of_def)
  have l: "DTLSv1_listen \<in> set (calls_of (DoHandshake example_openssl
                                 (Dtls_new ''localhost.pem'' ''localhost_key.pem'') 7))"
    by (simp add: ex_run_old calls_of_def)
  have s: "status_of (DoHandshakeAsServer example_openssl
                                 (Dtls_new ''localhost.pem'' ''localhost_key.pem'') 7) = Some 0"
     "status_of (DoHandshake example_openssl
                                 (Dtls_new ''localhost.pem'' ''localhost_key.pem'') 7) = Some 0"
    by (simp_all add: ex_run ex_run_old status_of_def)
  from responder_has_no_cookie_gate
         [of example_openssl "Dtls_new ''localhost.pem'' ''localhost_key.pem''" 7] a l s
  show ?thesis by blast
qed


text \<open>
  Claim C6 as stated fails: at the sample run the responder returns 0 (completed) and
  holds a connection object, and no cookie callback was registered nor
  \<open>DTLSv1_listen\<close> called on the way, so no cookie was ever asked for or checked.
\<close>

theorem completed_without_cookie_exchange:
  "status_of (DoHandshakeAsServer example_openssl
                (Dtls_new ''localhost.pem'' ''localhost_key.pem'') 7) = Some 0
   \<and> map_option GetSSL (object_of (DoHandshakeAsServer example_openssl
                (Dtls_new ''localhost.pem'' ''localhost_key.pem'') 7)) = Some (Some 2)
   \<and> \<not> list_ex is_cookie_call (calls_of (DoHandshakeAsServer example_openssl
                (Dtls_new ''localhost.pem'' ''localhost_key.pem'') 7))"
  by (simp add: ex_run status_of_def object_of_def calls_of_def GetSSL_def example_completed_def)






lemma Init_never_none:
  "SSL_CTX_set_verify SSL_VERIFY_NONE cb \<notin> set (calls_of_m (Init lib mem mthis))"
  by (cases "k_ptr_m mthis")
     (simp_all add: Init_def calls_of_m_def Let_def)


lemma ex_init:
  "Init example_openssl example_openssl_mem
        (DtlsManaged_new ''localhost.pem'' ''localhost_key.pem'') =
     Inr (0,
       \<lparr>k_ptr_m = Some \<lparr>ctx_m = Some 1, ssl_m = Some 2, in_bio = Some 5, out_bio = Some 6,
                         name_m = ''+ server''\<rparr>,
        certFile_m = ''localhost.pem'', keyFile_m = ''localhost_key.pem'',
        handshakeComplete_m = False\<rparr>,
       [ERR_print_errors_fp, SSL_CTX_new DTLS_method,
        SSL_CTX_set_cipher_list ''ALL:!ADH:!LOW:!EXP:!MD5:@STRENGTH'',
        SSL_CTX_set_ecdh_auto,
        SSL_CTX_set_verify SSL_VERIFY_PEER (Some cb_krx_ssl_verify_peer),
        SSL_CTX_set_tlsext_use_srtp ''SRTP_AES128_CM_SHA1_80'',
        SSL_CTX_use_certificate_file ''localhost.pem'',
        SSL_CTX_use_PrivateKey_file ''localhost_key.pem'',
        SSL_CTX_check_private_key, sprintf_name ''+ server'', SSL_new,
        SSL_set_info_callback cb_krx_ssl_info_callback,
        DTLS_set_link_mtu 1400, SSL_set_mtu 1400, BIO_new_mem,
        BIO_set_mem_eof_return, BIO_new_mem,
        BIO_set_mem_eof_return, SSL_set_bio, SSL_set_accept_state,
        ERR_print_errors_fp])"
  by (simp add: Init_def example_openssl_def example_openssl_mem_def DtlsManaged_new_def Let_def)

lemma ex_init_object:
  "object_of_m (Init example_openssl example_openssl_mem
        (DtlsManaged_new ''localhost.pem'' ''localhost_key.pem'')) = Some example_managed"
  by (simp add: ex_init object_of_m_def example_managed_def)





subsection \<open>Export on a session that is not completed\<close>








end
